theory Spec2Isabelle
  imports
    Complex_Main
    "HOL-Library.AList"
    "HOL-Library.Char_ord"
    "HOL-Library.List_Lexorder"
begin

chapter \<open>The cache core of the news pipeline: identities, shards, merge, cleanup, lock\<close>

text \<open>
  A shallow embedding of the Python sources
  \<^verbatim>\<open>src/steps/step0_cache.py\<close>, \<^verbatim>\<open>src/steps/step1_ingestion.py\<close>,
  \<^verbatim>\<open>src/steps/step2_dedup.py\<close>, \<^verbatim>\<open>src/steps/step4_multi_dedup.py\<close>,
  \<^verbatim>\<open>src/utils/cache.py\<close>, \<^verbatim>\<open>src/models/articles.py\<close> and \<^verbatim>\<open>src/models/news.py\<close>.

  Conventions of the embedding.
  \<^item> Python strings are \<open>string\<close>; the text functions below are written for 7-bit
    ASCII, where \<open>str.lower\<close>, \<open>str.isspace\<close> and the regular-expression classes
    \<open>\<bsol>w\<close> and \<open>\<bsol>s\<close> are the usual tables.
  \<^item> Library functions that are not part of the repository (SHA-256, \<open>strptime\<close>,
    \<open>strftime\<close>, the iteration order of a Python \<open>set\<close>) are parameters of the
    functions that call them.
  \<^item> An exception is a value \<open>Inl e\<close> of a sum type; a caught exception is the branch the
    handler takes.
  \<^item> The file system is explicit state. Operations on it are assumed to succeed unless
    the model says otherwise.
\<close>

datatype error = ValueError string | ValidationError string | KeyError string

section \<open>Python text primitives (ASCII)\<close>

definition py_isspace :: "char \<Rightarrow> bool" where
  "py_isspace c = (let n = (of_char c :: nat) in (9 \<le> n \<and> n \<le> 13) \<or> (28 \<le> n \<and> n \<le> 32))"

definition py_isalnum :: "char \<Rightarrow> bool" where
  "py_isalnum c = (let n = (of_char c :: nat) in
     (48 \<le> n \<and> n \<le> 57) \<or> (65 \<le> n \<and> n \<le> 90) \<or> (97 \<le> n \<and> n \<le> 122))"

text \<open>The class \<open>\<bsol>w\<close>: alphanumeric or underscore.\<close>

definition re_word :: "char \<Rightarrow> bool" where
  "re_word c = (py_isalnum c \<or> c = CHR ''_'')"

definition lower_char :: "char \<Rightarrow> char" where
  "lower_char c = (let n = (of_char c :: nat) in if 65 \<le> n \<and> n \<le> 90 then char_of (n + 32) else c)"

definition py_lower :: "string \<Rightarrow> string" where
  "py_lower s = map lower_char s"

definition py_strip :: "string \<Rightarrow> string" where
  "py_strip s = rev (dropWhile py_isspace (rev (dropWhile py_isspace s)))"

text \<open>\<open>re.sub(p+, r, s)\<close> for a character class \<open>p\<close>: every maximal run becomes \<open>r\<close>.\<close>

fun re_sub_runs :: "(char \<Rightarrow> bool) \<Rightarrow> char \<Rightarrow> string \<Rightarrow> string" where
  "re_sub_runs p r [] = []"
| "re_sub_runs p r [c] = (if p c then [r] else [c])"
| "re_sub_runs p r (c # d # cs) =
     (if p c then (if p d then re_sub_runs p r (d # cs) else r # re_sub_runs p r (d # cs))
      else c # re_sub_runs p r (d # cs))"

text \<open>\<open>str.split()\<close> with no argument: the maximal runs of non-whitespace.\<close>

fun split_ws :: "string \<Rightarrow> string \<Rightarrow> string list" where
  "split_ws w [] = (if w = [] then [] else [w])"
| "split_ws w (c # cs) =
     (if py_isspace c then (if w = [] then split_ws [] cs else w # split_ws [] cs)
      else split_ws (w @ [c]) cs)"

definition py_split :: "string \<Rightarrow> string list" where
  "py_split s = split_ws [] s"

fun py_join :: "string \<Rightarrow> string list \<Rightarrow> string" where
  "py_join sep [] = []"
| "py_join sep [w] = w"
| "py_join sep (w # v # ws) = w @ sep @ py_join sep (v # ws)"

text \<open>\<open>str(n)\<close> for a non-negative integer.\<close>

fun py_str_nat :: "nat \<Rightarrow> string" where
  "py_str_nat n =
     (if n < 10 then [char_of (48 + n)]
      else py_str_nat (n div 10) @ [char_of (48 + n mod 10)])"

section \<open>IdentityGenerator: \<open>generate_slug\<close> (step1_ingestion.py)\<close>

definition SLUG_WORD_COUNT :: nat where
  "SLUG_WORD_COUNT = 4"

definition SLUG_HASH_LENGTH :: nat where
  "SLUG_HASH_LENGTH = 8"

text \<open>
  The four normalisation steps of \<open>generate_slug\<close>, in the order of the source:
  lower and strip, delete every character outside \<open>[\<bsol>w\<bsol>s-]\<close>, collapse whitespace runs
  to one blank, collapse runs of dashes to one dash.
\<close>

definition normalize_title :: "string \<Rightarrow> string" where
  "normalize_title title =
     (let normalized = py_strip (py_lower title);
          normalized = filter (\<lambda>c. re_word c \<or> py_isspace c \<or> c = CHR ''-'') normalized;
          normalized = re_sub_runs py_isspace CHR '' '' normalized;
          normalized = re_sub_runs (\<lambda>c. c = CHR ''-'') CHR ''-'' normalized
      in normalized)"

text \<open>
  \<open>base_slug\<close>: the first \<open>SLUG_WORD_COUNT\<close> words joined by dashes, a dash, and the first
  \<open>SLUG_HASH_LENGTH\<close> characters of the SHA-256 hex digest of the stripped original
  title. The digest function \<open>sha256_hex\<close> is a parameter.
\<close>

definition base_slug :: "(string \<Rightarrow> string) \<Rightarrow> string \<Rightarrow> string" where
  "base_slug sha256_hex title =
     (let words = take SLUG_WORD_COUNT (py_split (normalize_title title));
          word_part = py_join ''-'' words;
          hash_hex = take SLUG_HASH_LENGTH (sha256_hex (py_strip title))
      in word_part @ ''-'' @ hash_hex)"

definition suffixed :: "string \<Rightarrow> nat \<Rightarrow> string" where
  "suffixed base counter = base @ ''_'' @ py_str_nat counter"

definition collision_error :: "string \<Rightarrow> error" where
  "collision_error title = ValueError (''Too many slug collisions for title: '' @ title)"

text \<open>
  The collision loop: \<open>while slug in existing_slugs\<close>, raising once \<open>counter >= 10\<close>,
  otherwise trying the next suffix.
\<close>

function slug_loop :: "string \<Rightarrow> string \<Rightarrow> string set \<Rightarrow> string \<Rightarrow> nat \<Rightarrow> error + string" where
  "slug_loop title base existing_slugs slug counter =
     (if slug \<in> existing_slugs then
        (if counter \<ge> 10 then Inl (collision_error title)
         else slug_loop title base existing_slugs (suffixed base counter) (counter + 1))
      else Inr slug)"
  by pat_completeness auto
termination
  by (relation "measure (\<lambda>(title, base, existing_slugs, slug, counter). 10 - counter)") auto

definition generate_slug :: "(string \<Rightarrow> string) \<Rightarrow> string \<Rightarrow> string set \<Rightarrow> error + string" where
  "generate_slug sha256_hex title existing_slugs =
     (let base = base_slug sha256_hex title
      in slug_loop title base existing_slugs base 1)"

text \<open>The ten candidates in probing order: the base slug, then \<open>base_1\<close> to \<open>base_9\<close>.\<close>

definition slug_candidates :: "string \<Rightarrow> string list" where
  "slug_candidates base = base # map (suffixed base) [1..<10]"

section \<open>Time\<close>

text \<open>
  A naive \<open>datetime\<close> is a number of microseconds on the proleptic calendar; a date is
  a day number, and \<open>strptime(s, "%Y-%m-%d")\<close> yields the midnight that starts the day.
  \<open>timedelta(days=d)\<close> is \<open>d\<close> times the length of a day.
\<close>

type_synonym datetime = int

definition usec_per_day :: int where
  "usec_per_day = 86400000000"

definition timedelta_days :: "int \<Rightarrow> int" where
  "timedelta_days d = d * usec_per_day"

definition midnight :: "int \<Rightarrow> datetime" where
  "midnight day = day * usec_per_day"

definition date_of :: "datetime \<Rightarrow> int" where
  "date_of t = t div usec_per_day"

section \<open>MergeEngine: \<open>NewsCluster\<close> and \<open>_merge_duplicate_news\<close> (news.py, step4_multi_dedup.py)\<close>

record NewsCluster =
  news_id :: string
  title :: string
  summary :: string
  article_slugs :: "string list"
  article_count :: int
  main_topic :: string
  keywords' :: "string list"
  created_at :: datetime
  updated_at :: "datetime option"

text \<open>
  What the pydantic model checks when a \<open>NewsCluster\<close> is constructed or loaded:
  \<open>title\<close> has \<open>min_length=10\<close>, \<open>summary\<close> has \<open>min_length=50\<close>, \<open>article_count\<close> has
  \<open>ge=1\<close>, and the field validator requires \<open>article_count == len(article_slugs)\<close>.
  The field \<open>keywords\<close> (here \<open>keywords'\<close>, the plain name being reserved) carries the
  description "Extracted keywords (max 10)" and no constraint.
\<close>

definition NewsCluster_valid :: "NewsCluster \<Rightarrow> bool" where
  "NewsCluster_valid c =
     (length (title c) \<ge> 10 \<and> length (summary c) \<ge> 50 \<and> article_count c \<ge> 1 \<and>
      article_count c = int (length (article_slugs c)))"

definition NewsCluster_init :: "NewsCluster \<Rightarrow> error + NewsCluster" where
  "NewsCluster_init c =
     (if NewsCluster_valid c then Inr c else Inl (ValidationError ''NewsCluster''))"

record NewsDeduplicationPair =
  news_today_id :: string
  news_cached_id :: string
  merge_reason :: string


text \<open>The dict comprehension \<open>{news.news_id: news for news in xs}\<close>: a later entry wins.\<close>

definition id_map :: "NewsCluster list \<Rightarrow> string \<Rightarrow> NewsCluster option" where
  "id_map xs = foldl (\<lambda>m n. m(news_id n \<mapsto> n)) Map.empty xs"

text \<open>The cluster \<open>updated_news\<close> built for one pair.\<close>

definition updated_news :: "(string list \<Rightarrow> string list) \<Rightarrow> datetime \<Rightarrow> NewsCluster \<Rightarrow> NewsCluster \<Rightarrow> error + NewsCluster" where
  "updated_news set_list utcnow base to_merge =
     (let merged_slugs = set_list (article_slugs base @ article_slugs to_merge)
      in NewsCluster_init
           \<lparr>news_id = news_id base,
            title = title base,
            summary = summary base,
            article_slugs = merged_slugs,
            article_count = int (length merged_slugs),
            main_topic = main_topic base,
            keywords' = take 10 (set_list (keywords' base @ keywords' to_merge)),
            created_at = created_at base,
            updated_at = Some utcnow\<rparr>)"

text \<open>
  The inner loop \<open>for i, news in enumerate(result_news): if news.news_id == ...: result_news[i] = updated_news; break\<close>:
  the first entry with the id is replaced, and nothing happens when there is none.
\<close>

fun replace_first :: "string \<Rightarrow> NewsCluster \<Rightarrow> NewsCluster list \<Rightarrow> NewsCluster list" where
  "replace_first i u [] = []"
| "replace_first i u (n # ns) = (if news_id n = i then u # ns else n # replace_first i u ns)"

text \<open>
  The base of a pair: \<open>if today_item.article_count >= cached_item.article_count\<close> the
  today side, else the cached side. The result is \<open>(base, to_merge)\<close>.
\<close>

definition choose_base :: "NewsCluster \<Rightarrow> NewsCluster \<Rightarrow> NewsCluster \<times> NewsCluster" where
  "choose_base today_item cached_item =
     (if article_count today_item \<ge> article_count cached_item then (today_item, cached_item)
      else (cached_item, today_item))"

text \<open>
  One iteration of \<open>for pair in duplicate_pairs\<close>. The state is \<open>result_news\<close> and
  \<open>merged_today_ids\<close>. A pair with an unknown side is skipped (\<open>continue\<close>). The test
  \<open>base == cached_item\<close> is pydantic's field-wise equality, which is equality of records.
\<close>

definition merge_pair ::
  "(string list \<Rightarrow> string list) \<Rightarrow> datetime \<Rightarrow> (string \<Rightarrow> NewsCluster option) \<Rightarrow>
   (string \<Rightarrow> NewsCluster option) \<Rightarrow> NewsCluster list \<times> string set \<Rightarrow> NewsDeduplicationPair \<Rightarrow>
   error + (NewsCluster list \<times> string set)" where
  "merge_pair set_list utcnow today_map cached_map st pair =
     (case (today_map (news_today_id pair), cached_map (news_cached_id pair)) of
        (Some today_item, Some cached_item) \<Rightarrow>
          (let (base, to_merge) = choose_base today_item cached_item
           in case updated_news set_list utcnow base to_merge of
                Inl e \<Rightarrow> Inl e
              | Inr u \<Rightarrow>
                  Inr (if base = cached_item
                       then replace_first (news_id cached_item) u (fst st)
                       else filter (\<lambda>n. news_id n \<noteq> news_id cached_item) (fst st) @ [u],
                       insert (news_today_id pair) (snd st)))
      | _ \<Rightarrow> Inr st)"

fun merge_pairs ::
  "(string list \<Rightarrow> string list) \<Rightarrow> datetime \<Rightarrow> (string \<Rightarrow> NewsCluster option) \<Rightarrow>
   (string \<Rightarrow> NewsCluster option) \<Rightarrow> NewsCluster list \<times> string set \<Rightarrow> NewsDeduplicationPair list \<Rightarrow>
   error + (NewsCluster list \<times> string set)" where
  "merge_pairs set_list utcnow today_map cached_map st [] = Inr st"
| "merge_pairs set_list utcnow today_map cached_map st (pair # pairs) =
     (case merge_pair set_list utcnow today_map cached_map st pair of
        Inl e \<Rightarrow> Inl e
      | Inr st' \<Rightarrow> merge_pairs set_list utcnow today_map cached_map st' pairs)"

definition merge_duplicate_news ::
  "(string list \<Rightarrow> string list) \<Rightarrow> datetime \<Rightarrow> NewsCluster list \<Rightarrow> NewsCluster list \<Rightarrow>
   NewsDeduplicationPair list \<Rightarrow> error + NewsCluster list" where
  "merge_duplicate_news set_list utcnow today_news cached_news duplicate_pairs =
     (let today_map = id_map today_news;
          cached_map = id_map cached_news
      in case merge_pairs set_list utcnow today_map cached_map (cached_news, {}) duplicate_pairs of
           Inl e \<Rightarrow> Inl e
         | Inr (result_news, merged_today_ids) \<Rightarrow>
             Inr (result_news @ filter (\<lambda>n. news_id n \<notin> merged_today_ids) today_news))"

text \<open>What every cluster built by a merge satisfies.\<close>

definition merged_ok :: "NewsCluster \<Rightarrow> bool" where
  "merged_ok u = (article_count u = int (length (article_slugs u)) \<and> length (keywords' u) \<le> 10)"

section \<open>ExactDedupEngine: cached days and \<open>run_step2\<close> (articles.py, step2_dedup.py)\<close>

text \<open>
  \<open>ProcessedArticle\<close>. The field \<open>title\<close> is \<open>article_title\<close> here, since \<open>NewsCluster\<close> has
  a field of that name too. \<open>url\<close> holds the text of the URL. The one numeric constraint of
  the model is \<open>feed_priority\<close> with \<open>ge=1, le=10\<close>.
\<close>

record ProcessedArticle =
  article_title :: string
  url :: string
  published_date :: "datetime option"
  content :: "string option"
  author :: "string option"
  feed_name :: string
  feed_priority :: int
  slug :: string
  content_hash :: string

definition ProcessedArticle_valid :: "ProcessedArticle \<Rightarrow> bool" where
  "ProcessedArticle_valid a = (1 \<le> feed_priority a \<and> feed_priority a \<le> 10)"

record CachedArticlesDay =
  date :: datetime
  articles :: "ProcessedArticle list"
  total_count :: int

text \<open>
  The text of a cache file, as far as \<open>json.loads\<close> and
  \<open>CachedArticlesDay.model_validate\<close> tell bodies apart: text that is not JSON; JSON that
  is not an object with the three fields; and an object with a \<open>date\<close> (\<open>None\<close> when the
  value is no date), a list of article objects and a \<open>total_count\<close>.
\<close>

datatype file_body =
    NotJson
  | JsonOther
  | JsonDay "datetime option" "ProcessedArticle list" int

datatype load_error = JSONDecodeError | PydanticValidationError

text \<open>
  \<open>json.loads\<close> followed by \<open>model_validate\<close>. Validation fails when the date is no
  date, when an article object violates a field constraint, when \<open>total_count\<close> is
  negative (\<open>ge=0\<close>), and when \<open>model_post_init\<close> finds
  \<open>total_count != len(articles)\<close>; pydantic reports each as a \<open>ValidationError\<close>.
\<close>

fun load_day :: "file_body \<Rightarrow> load_error + CachedArticlesDay" where
  "load_day NotJson = Inl JSONDecodeError"
| "load_day JsonOther = Inl PydanticValidationError"
| "load_day (JsonDay d arts n) =
     (case d of
        None \<Rightarrow> Inl PydanticValidationError
      | Some d' \<Rightarrow>
          if \<not> list_all ProcessedArticle_valid arts \<or> n < 0 \<or> n \<noteq> int (length arts)
          then Inl PydanticValidationError
          else Inr \<lparr>date = d', articles = arts, total_count = n\<rparr>)"

text \<open>
  A cache directory: the \<open>*.json\<close> files it holds, each as the stem of its name and its
  body. \<open>sorted(cache_dir.glob("*.json"))\<close> orders the files by name.
\<close>

type_synonym directory = "(string \<times> file_body) list"

definition sorted_glob :: "directory \<Rightarrow> directory" where
  "sorted_glob dir = sort_key (\<lambda>f. fst f @ ''.json'') dir"

record LoadStats =
  files_loaded :: nat
  files_corrupted :: nat

text \<open>
  The body of the loop of \<open>_load_cached_articles\<close> for one file. \<open>strptime\<close> is the
  parameter that parses a stem with the format \<open>%Y-%m-%d\<close>: it returns the day number, or
  \<open>None\<close> where Python raises \<open>ValueError\<close>. Both \<open>except\<close> clauses count the file as
  corrupted and go on.
\<close>

definition load_file ::
  "(string \<Rightarrow> int option) \<Rightarrow> datetime \<Rightarrow> ProcessedArticle list \<times> LoadStats \<Rightarrow>
   string \<times> file_body \<Rightarrow> ProcessedArticle list \<times> LoadStats" where
  "load_file strptime cutoff_date acc cache_file =
     (case strptime (fst cache_file) of
        None \<Rightarrow> (fst acc, (snd acc)\<lparr>files_corrupted := files_corrupted (snd acc) + 1\<rparr>)
      | Some day \<Rightarrow>
          if midnight day < cutoff_date then acc
          else (case load_day (snd cache_file) of
                  Inl e \<Rightarrow> (fst acc, (snd acc)\<lparr>files_corrupted := files_corrupted (snd acc) + 1\<rparr>)
                | Inr cached_day \<Rightarrow>
                    (fst acc @ articles cached_day,
                     (snd acc)\<lparr>files_loaded := files_loaded (snd acc) + 1\<rparr>)))"

text \<open>\<open>_load_cached_articles\<close>; the directory is \<open>None\<close> when it does not exist.\<close>

definition load_cached_articles ::
  "(string \<Rightarrow> int option) \<Rightarrow> directory option \<Rightarrow> datetime \<Rightarrow> ProcessedArticle list \<times> LoadStats" where
  "load_cached_articles strptime cache_dir cutoff_date =
     (case cache_dir of
        None \<Rightarrow> ([], \<lparr>files_loaded = 0, files_corrupted = 0\<rparr>)
      | Some dir \<Rightarrow>
          foldl (load_file strptime cutoff_date) ([], \<lparr>files_loaded = 0, files_corrupted = 0\<rparr>)
            (sorted_glob dir))"

text \<open>
  A Python \<open>dict\<close> keyed by slug that is read back in insertion order: an association
  list, where assigning to a key that is present keeps its place.
\<close>

definition slug_dict :: "ProcessedArticle list \<Rightarrow> (string \<times> ProcessedArticle) list" where
  "slug_dict arts = foldl (\<lambda>d a. AList.update (slug a) a d) [] arts"

text \<open>
  \<open>_save_articles_to_daily_cache\<close>. A body of today's file that does not load is logged
  ("will overwrite") and treated as no articles. The result is the returned flag and the
  directory after \<open>write_text\<close>.
\<close>

definition save_articles_to_daily_cache ::
  "datetime \<Rightarrow> ProcessedArticle list \<Rightarrow> string \<Rightarrow> directory \<Rightarrow> bool \<times> directory" where
  "save_articles_to_daily_cache now arts stem dir =
     (let existing_articles =
            (case map_of dir stem of
               None \<Rightarrow> []
             | Some body \<Rightarrow> (case load_day body of Inl e \<Rightarrow> [] | Inr existing_day \<Rightarrow> articles existing_day));
          all_articles = map snd (slug_dict (existing_articles @ arts));
          cached_day = \<lparr>date = now, articles = all_articles, total_count = int (length all_articles)\<rparr>
      in (True,
          AList.update stem
            (JsonDay (Some (date cached_day)) (articles cached_day) (total_count cached_day)) dir))"

record DeduplicationStats =
  input_articles :: nat
  cache_articles :: nat
  duplicates_found :: nat
  unique_count :: nat
  deduplication_rate :: rat
  cache_files_loaded :: nat
  cache_files_corrupted :: nat

record Step2Result =
  success :: bool
  unique_articles :: "ProcessedArticle list"
  stats :: DeduplicationStats
  cache_updated :: bool
  errors :: "string list"




section \<open>CacheStore: \<open>CacheManager\<close> (cache.py)\<close>

text \<open>
  The cache root holds the files \<open>{key}.json\<close> that \<open>CacheManager\<close> addresses by key; a
  key with a slash names a file in a subdirectory (the date shards
  \<open>news/news_YYYY-MM-DD\<close> are saved that way). Of a file's text the manager reads only
  \<open>cached_at\<close>: the field is \<open>None\<close> here when \<open>json.loads\<close>, the lookup of the
  field or \<open>datetime.fromisoformat\<close> raises.
\<close>

datatype cache_file = CacheFile (cached_at: "datetime option")

type_synonym cache_root = "(string \<times> cache_file) list"

definition exists_key :: "cache_root \<Rightarrow> string \<Rightarrow> bool" where
  "exists_key fs key = (map_of fs key \<noteq> None)"

text \<open>\<open>get_age\<close>: \<open>None\<close> when the file is missing or its age cannot be read.\<close>

definition get_age :: "datetime \<Rightarrow> cache_root \<Rightarrow> string \<Rightarrow> int option" where
  "get_age now fs key =
     (case map_of fs key of
        None \<Rightarrow> None
      | Some f \<Rightarrow> (case cached_at f of None \<Rightarrow> None | Some t \<Rightarrow> Some (now - t)))"

text \<open>\<open>is_fresh\<close>: \<open>age.days < max_age_days\<close>, where \<open>timedelta.days\<close> rounds down.\<close>

definition is_fresh :: "datetime \<Rightarrow> cache_root \<Rightarrow> string \<Rightarrow> int \<Rightarrow> bool" where
  "is_fresh now fs key max_age_days =
     (case get_age now fs key of
        None \<Rightarrow> False
      | Some age \<Rightarrow> age div usec_per_day < max_age_days)"

definition delete_key :: "string \<Rightarrow> cache_root \<Rightarrow> cache_root" where
  "delete_key key fs = filter (\<lambda>f. fst f \<noteq> key) fs"

text \<open>
  \<open>cleanup\<close>: one pass over the items of \<open>retention_days\<close>. The state is the cache root
  and the counter \<open>cleaned\<close>, which the source only logs.
\<close>

definition cleanup_step :: "datetime \<Rightarrow> cache_root \<times> nat \<Rightarrow> string \<times> int \<Rightarrow> cache_root \<times> nat" where
  "cleanup_step now acc item =
     (if exists_key (fst acc) (fst item) \<and> \<not> is_fresh now (fst acc) (fst item) (snd item)
      then (delete_key (fst item) (fst acc), snd acc + 1)
      else acc)"

definition cleanup :: "datetime \<Rightarrow> (string \<times> int) list \<Rightarrow> cache_root \<Rightarrow> cache_root \<times> nat" where
  "cleanup now retention_days fs = foldl (cleanup_step now) (fs, 0) retention_days"

text \<open>\<open>list_all\<close>: the stems of \<open>cache_dir.glob("*.json")\<close>, the files of the root itself.\<close>

definition list_all_keys :: "cache_root \<Rightarrow> string list" where
  "list_all_keys fs = filter (\<lambda>k. CHR ''/'' \<notin> set k) (map fst fs)"

section \<open>Step 0: lock file and \<open>run_step0\<close> (step0_cache.py)\<close>

text \<open>
  The state of the cache directory: the modification time of \<open>.lock\<close> in seconds
  (\<open>None\<close> when there is no lock file) and the files of the cache root.
\<close>

record cache_state =
  lock_mtime :: "real option"
  files :: cache_root

text \<open>
  What the environment answers during one run: \<open>time.time()\<close>, \<open>datetime.now()\<close>, the
  result of \<open>verify_gemini_health\<close>, the result of \<open>verify_repo_permissions\<close>, whether
  \<open>cache_dir.mkdir\<close> raises, and whether \<open>_backup_cache\<close> raises.
\<close>

record step0_env =
  clock :: real
  now_dt :: datetime
  gemini_healthy :: bool
  repo_writable :: bool
  mkdir_raises :: bool
  backup_raises :: bool

record Step0Config =
  retention :: "(string \<times> int) list"
  backup_on_error :: bool
  cleanup_on_start :: bool

record Step0Result =
  success :: bool
  cache_cleaned :: int
  cache_backed_up :: bool
  errors :: "string list"

text \<open>
  \<open>acquire_lock_file\<close>: a lock older than 3600 seconds is removed and replaced; a younger
  one makes the call return \<open>False\<close>; with no lock the file is written.
\<close>

definition acquire_lock_file :: "real \<Rightarrow> cache_state \<Rightarrow> bool \<times> cache_state" where
  "acquire_lock_file time st =
     (case lock_mtime st of
        Some mtime \<Rightarrow>
          (let lock_age = time - mtime
           in if lock_age > 3600 then (True, st\<lparr>lock_mtime := Some time\<rparr>) else (False, st))
      | None \<Rightarrow> (True, st\<lparr>lock_mtime := Some time\<rparr>))"

text \<open>\<open>release_lock_file\<close>: \<open>if lock_file.exists(): lock_file.unlink()\<close>.\<close>

definition release_lock_file :: "cache_state \<Rightarrow> cache_state" where
  "release_lock_file st = (case lock_mtime st of Some mtime \<Rightarrow> st\<lparr>lock_mtime := None\<rparr> | None \<Rightarrow> st)"

text \<open>
  The dictionary \<open>retention_policy\<close> that \<open>run_step0\<close> builds; a missing key of
  \<open>config.retention\<close> raises \<open>KeyError\<close>.
\<close>

definition retention_policy :: "Step0Config \<Rightarrow> error + (string \<times> int) list" where
  "retention_policy config =
     (case map_of (retention config) ''articles_days'' of
        None \<Rightarrow> Inl (KeyError ''articles_days'')
      | Some articles_days \<Rightarrow>
          (case map_of (retention config) ''news_days'' of
             None \<Rightarrow> Inl (KeyError ''news_days'')
           | Some news_days \<Rightarrow>
               Inr [(''articles'', articles_days),
                    (''news'', news_days),
                    (''processed_articles'', articles_days),
                    (''clustered_articles'', articles_days),
                    (''selected_articles'', news_days),
                    (''enhanced_news'', news_days)]))"

text \<open>
  The body of the \<open>try\<close> of \<open>run_step0\<close> after the lock is held. A raising \<open>mkdir\<close> leaves
  through the outer \<open>except\<close>; a raising backup or cleanup is caught where it happens and
  adds a message.
\<close>

definition step0_body :: "step0_env \<Rightarrow> Step0Config \<Rightarrow> bool \<Rightarrow> cache_state \<Rightarrow> Step0Result \<times> cache_state" where
  "step0_body env config check_gemini st =
     (let errs = (if check_gemini \<and> \<not> gemini_healthy env
                  then [''Gemini API health check failed - API may be unavailable''] else []);
          errs = errs @ (if \<not> repo_writable env
                         then [''Repository write permissions check failed''] else [])
      in if mkdir_raises env
         then (\<lparr>success = False, cache_cleaned = 0, cache_backed_up = False,
                errors = [''Critical failure: mkdir'']\<rparr>, st)
         else
           (let backed_up = (backup_on_error config \<and> \<not> backup_raises env);
                errs = errs @ (if backup_on_error config \<and> backup_raises env
                               then [''Cache backup failed''] else [])
            in if cleanup_on_start config
               then (case retention_policy config of
                       Inl e \<Rightarrow>
                         (\<lparr>success = False, cache_cleaned = 0, cache_backed_up = backed_up,
                           errors = errs @ [''Cache cleanup failed'']\<rparr>, st)
                     | Inr policy \<Rightarrow>
                         (let initial_count = length (list_all_keys (files st));
                              fs = fst (cleanup (now_dt env) policy (files st));
                              final_count = length (list_all_keys fs);
                              cleaned = int initial_count - int final_count
                          in (\<lparr>success = (errs = []), cache_cleaned = cleaned,
                                cache_backed_up = backed_up, errors = errs\<rparr>,
                              st\<lparr>files := fs\<rparr>)))
               else (\<lparr>success = (errs = []), cache_cleaned = 0, cache_backed_up = backed_up,
                      errors = errs\<rparr>, st)))"

text \<open>
  \<open>run_step0\<close>: the early return when the lock cannot be acquired, the body, and the
  \<open>finally\<close> clause, which releases the lock on each of these paths.
\<close>

definition run_step0 :: "step0_env \<Rightarrow> Step0Config \<Rightarrow> bool \<Rightarrow> cache_state \<Rightarrow> Step0Result \<times> cache_state" where
  "run_step0 env config check_gemini st =
     (let acquired = acquire_lock_file (clock env) st;
          returned =
            (if \<not> fst acquired
             then (\<lparr>success = False, cache_cleaned = 0, cache_backed_up = False,
                    errors = [''Failed to acquire lock file - another instance may be running'']\<rparr>,
                   snd acquired)
             else step0_body env config check_gemini (snd acquired))
      in (fst returned, release_lock_file (snd returned)))"

section \<open>Notions used in the statements\<close>

text \<open>
  What the loop of \<open>_load_cached_articles\<close> does with one file: it skips it silently,
  counts it as corrupted, or loads its articles.
\<close>

datatype outcome = Skipped | Corrupted | Loaded "ProcessedArticle list"

definition file_outcome :: "(string \<Rightarrow> int option) \<Rightarrow> datetime \<Rightarrow> string \<times> file_body \<Rightarrow> outcome" where
  "file_outcome strptime cutoff_date f =
     (case strptime (fst f) of
        None \<Rightarrow> Corrupted
      | Some day \<Rightarrow>
          if midnight day < cutoff_date then Skipped
          else (case load_day (snd f) of Inl e \<Rightarrow> Corrupted | Inr d \<Rightarrow> Loaded (articles d)))"

fun outcome_articles :: "outcome \<Rightarrow> ProcessedArticle list" where
  "outcome_articles (Loaded arts) = arts"
| "outcome_articles _ = []"

fun is_loaded :: "outcome \<Rightarrow> bool" where
  "is_loaded (Loaded arts) = True"
| "is_loaded _ = False"

text \<open>
  What \<open>_save_articles_to_daily_cache\<close> reads from today's file, and the articles it
  writes.
\<close>

definition existing_articles_of :: "directory \<Rightarrow> string \<Rightarrow> ProcessedArticle list" where
  "existing_articles_of dir stem =
     (case map_of dir stem of
        None \<Rightarrow> []
      | Some body \<Rightarrow> (case load_day body of Inl e \<Rightarrow> [] | Inr existing_day \<Rightarrow> articles existing_day))"

definition written_articles :: "directory \<Rightarrow> string \<Rightarrow> ProcessedArticle list \<Rightarrow> ProcessedArticle list" where
  "written_articles dir stem arts = map snd (slug_dict (existing_articles_of dir stem @ arts))"

text \<open>
  When \<open>cleanup\<close> removes the file of a key: the age in whole days has reached the
  retention, or the age cannot be read.
\<close>

definition expired :: "datetime \<Rightarrow> cache_file \<Rightarrow> int \<Rightarrow> bool" where
  "expired now f max_age_days =
     (case cached_at f of None \<Rightarrow> True | Some t \<Rightarrow> (now - t) div usec_per_day \<ge> max_age_days)"

definition removed_key :: "datetime \<Rightarrow> (string \<times> int) list \<Rightarrow> cache_root \<Rightarrow> string \<Rightarrow> bool" where
  "removed_key now policy fs key =
     (case map_of fs key of
        None \<Rightarrow> False
      | Some f \<Rightarrow> list_ex (\<lambda>item. fst item = key \<and> expired now f (snd item)) policy)"

section \<open>Example inputs\<close>

text \<open>Clusters and judgments used to run the merge on concrete inputs.\<close>

definition ex_today1 :: NewsCluster where
  "ex_today1 =
     \<lparr>news_id = ''news-today-0001'', title = ''Today story one'',
      summary = ''A summary of the first story of today, long enough for the model.'',
      article_slugs = [''t1-a''], article_count = 1, main_topic = ''research'',
      keywords' = [''ai''], created_at = 100, updated_at = None\<rparr>"

definition ex_today2 :: NewsCluster where
  "ex_today2 =
     \<lparr>news_id = ''news-today-0002'', title = ''Today story two'',
      summary = ''A summary of the second story of today, long enough for the model.'',
      article_slugs = [''t2-a''], article_count = 1, main_topic = ''research'',
      keywords' = [''llm''], created_at = 100, updated_at = None\<rparr>"

definition ex_cached1 :: NewsCluster where
  "ex_cached1 =
     \<lparr>news_id = ''news-cache-0001'', title = ''Cached story one'',
      summary = ''A summary of a cached story with one article, long enough for the model.'',
      article_slugs = [''c1-a''], article_count = 1, main_topic = ''research'',
      keywords' = [''ml''], created_at = 50, updated_at = None\<rparr>"

definition ex_cached3 :: NewsCluster where
  "ex_cached3 =
     \<lparr>news_id = ''news-cache-0003'', title = ''Cached story three'',
      summary = ''A summary of a cached story with three articles, long enough for the model.'',
      article_slugs = [''c3-a'', ''c3-b'', ''c3-c''], article_count = 3, main_topic = ''research'',
      keywords' = [''ml''], created_at = 50, updated_at = None\<rparr>"

definition ex_today_kw :: NewsCluster where
  "ex_today_kw =
     \<lparr>news_id = ''news-today-0011'', title = ''Today story with many keywords'',
      summary = ''A summary of a story of today that came with eleven keywords from clustering.'',
      article_slugs = [''kw-a''], article_count = 1, main_topic = ''research'',
      keywords' = [''k01'', ''k02'', ''k03'', ''k04'', ''k05'', ''k06'', ''k07'', ''k08'', ''k09'',
                   ''k10'', ''k11''],
      created_at = 100, updated_at = None\<rparr>"

definition ex_pair :: "string \<Rightarrow> string \<Rightarrow> NewsDeduplicationPair" where
  "ex_pair a b = \<lparr>news_today_id = a, news_cached_id = b, merge_reason = ''same story''\<rparr>"

text \<open>
  A calendar for the examples: the stems of 6 to 10 January 2024 with their day numbers
  (1 January of year 1 is day 1), a cached article, and a clock reading at noon of
  10 January 2024.
\<close>

definition ex_strptime :: "string \<Rightarrow> int option" where
  "ex_strptime s =
     map_of [(''2024-01-06'', 738891), (''2024-01-07'', 738892), (''2024-01-08'', 738893),
             (''2024-01-09'', 738894), (''2024-01-10'', 738895)] s"


definition ex_article :: "string \<Rightarrow> ProcessedArticle" where
  "ex_article s =
     \<lparr>article_title = ''An article'', url = ''https://example.com/a'', published_date = None,
      content = None, author = None, feed_name = ''Feed'', feed_priority = 5, slug = s,
      content_hash = ''hash''\<rparr>"

definition ex_noon :: datetime where
  "ex_noon = midnight 738895 + 43200000000"

definition ex_shard :: "string \<Rightarrow> file_body" where
  "ex_shard s = JsonDay (Some 0) [ex_article s] 1"

text \<open>An environment and a configuration for \<open>run_step0\<close> (retention 10 and 3 days).\<close>

definition ex_env :: step0_env where
  "ex_env =
     \<lparr>clock = 1000, now_dt = midnight 738895 + 43200000000, gemini_healthy = True,
      repo_writable = True, mkdir_raises = False, backup_raises = False\<rparr>"

definition ex_config :: Step0Config where
  "ex_config =
     \<lparr>retention = [(''articles_days'', 10), (''news_days'', 3)],
      backup_on_error = True, cleanup_on_start = True\<rparr>"

text \<open>
  A cache root on 10 January 2024: two files of the root and two date shards that are
  40 days old; and a cache directory with a lock that was written at second 900.
\<close>

definition ex_cache :: cache_state where
  "ex_cache =
     \<lparr>lock_mtime = None,
      files = [(''news'', CacheFile (Some (midnight 738855))),
               (''articles'', CacheFile (Some (midnight 738890))),
               (''news/news_2023-12-01'', CacheFile (Some (midnight 738855))),
               (''articles/2023-12-01'', CacheFile None)]\<rparr>"

definition ex_locked :: cache_state where
  "ex_locked = \<lparr>lock_mtime = Some 900, files = []\<rparr>"

text \<open>A stand-in for the digest function, for running \<open>generate_slug\<close>.\<close>

definition ex_sha :: "string \<Rightarrow> string" where
  "ex_sha s = ''0123456789abcdef''"

chapter \<open>Properties\<close>

section \<open>Properties of \<open>generate_slug\<close>\<close>

declare slug_loop.simps [simp del]

lemma slug_loop_find:
  "1 \<le> counter \<Longrightarrow> counter \<le> 10 \<Longrightarrow>
   slug_loop ttl base ex cand counter =
     (case find (\<lambda>s. s \<notin> ex) (cand # map (suffixed base) [counter..<10]) of
        Some s \<Rightarrow> Inr s
      | None \<Rightarrow> Inl (collision_error ttl))"
proof (induction ttl base ex cand counter rule: slug_loop.induct)
  case (1 ttl base ex cand counter)
  show ?case
  proof (cases "cand \<in> ex")
    case False
    then show ?thesis by (simp add: slug_loop.simps [of ttl base ex cand counter])
  next
    case True
    show ?thesis
    proof (cases "counter \<ge> 10")
      case True
      with \<open>cand \<in> ex\<close> show ?thesis
        by (simp add: slug_loop.simps [of ttl base ex cand counter])
    next
      case False
      then have lt: "counter < 10" by simp
      have step: "slug_loop ttl base ex cand counter =
            slug_loop ttl base ex (suffixed base counter) (Suc counter)"
        using \<open>cand \<in> ex\<close> False by (simp add: slug_loop.simps [of ttl base ex cand counter])
      have ih: "slug_loop ttl base ex (suffixed base counter) (Suc counter) =
            (case find (\<lambda>s. s \<notin> ex) (suffixed base counter # map (suffixed base) [Suc counter..<10]) of
               Some s \<Rightarrow> Inr s | None \<Rightarrow> Inl (collision_error ttl))"
        using "1.IH" [OF \<open>cand \<in> ex\<close> False] lt by simp
      have upt: "[counter..<10] = counter # [Suc counter..<10]"
        using lt by (simp add: upt_conv_Cons)
      show ?thesis
        using \<open>cand \<in> ex\<close> by (simp add: step ih upt)
    qed
  qed
qed

text \<open>
  C5. For every title and every set of used slugs, \<open>generate_slug\<close> returns the first of
  the ten candidates (base cand, then the suffixes \<open>_1\<close> to \<open>_9\<close>) that is not in the
  set, and it raises the collision error exactly when all ten candidates are in the set.
\<close>

theorem generate_slug_first_free:
  "generate_slug sha256_hex ttl existing =
     (case find (\<lambda>s. s \<notin> existing) (slug_candidates (base_slug sha256_hex ttl)) of
        Some s \<Rightarrow> Inr s
      | None \<Rightarrow> Inl (collision_error ttl))
   \<and> ((\<exists>e. generate_slug sha256_hex ttl existing = Inl e) \<longleftrightarrow>
        set (slug_candidates (base_slug sha256_hex ttl)) \<subseteq> existing)"
proof -
  let ?b = "base_slug sha256_hex ttl"
  have eq: "generate_slug sha256_hex ttl existing =
     (case find (\<lambda>s. s \<notin> existing) (slug_candidates ?b) of
        Some s \<Rightarrow> Inr s | None \<Rightarrow> Inl (collision_error ttl))"
    unfolding generate_slug_def slug_candidates_def Let_def
    by (rule slug_loop_find) simp_all
  have "(\<exists>e. generate_slug sha256_hex ttl existing = Inl e) \<longleftrightarrow>
        find (\<lambda>s. s \<notin> existing) (slug_candidates ?b) = None"
    unfolding eq by (cases "find (\<lambda>s. s \<notin> existing) (slug_candidates ?b)") simp_all
  also have "\<dots> \<longleftrightarrow> set (slug_candidates ?b) \<subseteq> existing"
    by (auto simp: find_None_iff)
  finally show ?thesis using eq by blast
qed

text \<open>
  The theorem on a title whose base slug and suffixes \<open>_1\<close> to \<open>_8\<close> are taken, and on the
  same title with all ten candidates taken.
\<close>

lemma ex_base_slug: "base_slug ex_sha ''Hello, World of AI news!'' = ''hello-world-of-ai-01234567''"
  by code_simp

lemma ex_slug_candidates:
  "slug_candidates ''hello-world-of-ai-01234567'' =
     [''hello-world-of-ai-01234567'',
      ''hello-world-of-ai-01234567_1'', ''hello-world-of-ai-01234567_2'',
      ''hello-world-of-ai-01234567_3'', ''hello-world-of-ai-01234567_4'',
      ''hello-world-of-ai-01234567_5'', ''hello-world-of-ai-01234567_6'',
      ''hello-world-of-ai-01234567_7'', ''hello-world-of-ai-01234567_8'',
      ''hello-world-of-ai-01234567_9'']"
  by code_simp

theorem generate_slug_first_free_witness:
  "generate_slug ex_sha ''Hello, World of AI news!''
     (set (take 9 (slug_candidates ''hello-world-of-ai-01234567''))) =
     Inr ''hello-world-of-ai-01234567_9'' \<and>
   generate_slug ex_sha ''Hello, World of AI news!''
     (set (slug_candidates ''hello-world-of-ai-01234567'')) =
     Inl (collision_error ''Hello, World of AI news!'')"
  using generate_slug_first_free [of ex_sha "''Hello, World of AI news!''"
          "set (take 9 (slug_candidates ''hello-world-of-ai-01234567''))"]
        generate_slug_first_free [of ex_sha "''Hello, World of AI news!''"
          "set (slug_candidates ''hello-world-of-ai-01234567'')"]
  unfolding ex_base_slug ex_slug_candidates by simp

section \<open>Properties of \<open>_merge_duplicate_news\<close>\<close>




lemma replace_first_subset: "set (replace_first i u ns) \<subseteq> insert u (set ns)"
  by (induction ns) auto






text \<open>
  C2. Two judgments against the same cached cluster, both with the cached side as base.
  Each merge starts from the cluster found in \<open>cached_map\<close>, which is the cluster as it
  was loaded, so the second merge replaces the first: the output holds one cluster with
  the slugs of the cached cluster and of the today cluster of the \<^emph>\<open>last\<close> judgment. The
  slug of the other today cluster is in no cluster of the output, and swapping the two
  judgments changes the result.
\<close>

theorem merge_same_base_overwrites:
  "map article_slugs (projr (merge_duplicate_news remdups 200 [ex_today1, ex_today2] [ex_cached3]
      [ex_pair ''news-today-0001'' ''news-cache-0003'', ex_pair ''news-today-0002'' ''news-cache-0003'']))
     = [[''c3-a'', ''c3-b'', ''c3-c'', ''t2-a'']] \<and>
   map article_slugs (projr (merge_duplicate_news remdups 200 [ex_today1, ex_today2] [ex_cached3]
      [ex_pair ''news-today-0002'' ''news-cache-0003'', ex_pair ''news-today-0001'' ''news-cache-0003'']))
     = [[''c3-a'', ''c3-b'', ''c3-c'', ''t1-a'']]"
  by (simp add: merge_duplicate_news_def id_map_def merge_pair_def choose_base_def
      updated_news_def NewsCluster_init_def NewsCluster_valid_def ex_pair_def
      ex_today1_def ex_today2_def ex_cached3_def)

text \<open>
  C8, the part that holds. When the input clusters are validated, every cluster of the
  output has \<open>article_count = len(article_slugs)\<close>, and every cluster of the output that is
  not an unchanged input cluster has at most ten keywords.
\<close>

lemma updated_news_ok: "updated_news sl now b m = Inr u \<Longrightarrow> merged_ok u"
  by (auto simp: updated_news_def NewsCluster_init_def NewsCluster_valid_def merged_ok_def Let_def
      split: if_splits)

lemma merge_pair_inv:
  assumes "merge_pair sl now tm cm st p = Inr st'"
    and "\<forall>u \<in> set (fst st). u \<in> S \<or> merged_ok u"
  shows "\<forall>u \<in> set (fst st'). u \<in> S \<or> merged_ok u"
proof (cases "tm (news_today_id p)")
  case None
  with assms show ?thesis by (simp add: merge_pair_def)
next
  case (Some t)
  show ?thesis
  proof (cases "cm (news_cached_id p)")
    case None
    with Some assms show ?thesis by (simp add: merge_pair_def)
  next
    case c: (Some c)
    obtain b m where cb: "choose_base t c = (b, m)" by (cases "choose_base t c")
    from assms(1) Some c cb obtain u where u: "updated_news sl now b m = Inr u"
      and st': "st' = (if b = c then replace_first (news_id c) u (fst st)
                       else filter (\<lambda>n. news_id n \<noteq> news_id c) (fst st) @ [u],
                       insert (news_today_id p) (snd st))"
      by (auto simp: merge_pair_def split: sum.splits)
    have ok: "merged_ok u" by (rule updated_news_ok [OF u])
    have "set (fst st') \<subseteq> insert u (set (fst st))"
      using replace_first_subset [of "news_id c" u "fst st"] by (auto simp: st')
    with ok assms(2) show ?thesis by blast
  qed
qed

lemma merge_pairs_inv:
  "merge_pairs sl now tm cm st ps = Inr st' \<Longrightarrow>
   \<forall>u \<in> set (fst st). u \<in> S \<or> merged_ok u \<Longrightarrow>
   \<forall>u \<in> set (fst st'). u \<in> S \<or> merged_ok u"
proof (induction ps arbitrary: st)
  case Nil
  then show ?case by simp
next
  case (Cons p ps)
  from Cons.prems(1) obtain st1 where s1: "merge_pair sl now tm cm st p = Inr st1"
    and s2: "merge_pairs sl now tm cm st1 ps = Inr st'"
    by (auto split: sum.splits)
  from merge_pair_inv [OF s1 Cons.prems(2)] Cons.IH [OF s2] show ?case by blast
qed

lemma merge_output_invariant:
  assumes run: "merge_duplicate_news sl now today cached pairs = Inr result"
    and valid: "\<forall>n \<in> set today \<union> set cached. NewsCluster_valid n"
  shows "\<forall>u \<in> set result.
           article_count u = int (length (article_slugs u)) \<and>
           (length (keywords' u) \<le> 10 \<or> u \<in> set today \<union> set cached)"
proof -
  from run obtain rn ids where
    loop: "merge_pairs sl now (id_map today) (id_map cached) (cached, {}) pairs = Inr (rn, ids)"
    and res: "result = rn @ filter (\<lambda>n. news_id n \<notin> ids) today"
    by (auto simp: merge_duplicate_news_def split: sum.splits prod.splits)
  have "\<forall>u \<in> set (fst (rn, ids)). u \<in> set cached \<or> merged_ok u"
    by (rule merge_pairs_inv [OF loop]) simp
  then have "\<forall>u \<in> set result. u \<in> set today \<union> set cached \<or> merged_ok u"
    by (auto simp: res)
  with valid show ?thesis
    by (auto simp: merged_ok_def NewsCluster_valid_def)
qed

text \<open>
  C8 as stated fails for a cluster that passes through. The model documents
  "Extracted keywords (max 10)" and checks nothing, the merged path truncates with
  \<open>[:10]\<close>, and a today cluster with eleven keywords that no judgment names is returned
  as it came.
\<close>

theorem merge_passes_keywords_through:
  "NewsCluster_valid ex_today_kw \<and> NewsCluster_valid ex_cached1 \<and>
   merge_duplicate_news remdups 200 [ex_today_kw] [ex_cached1] [] = Inr [ex_cached1, ex_today_kw] \<and>
   length (keywords' ex_today_kw) = 11"
  by (simp add: merge_duplicate_news_def NewsCluster_valid_def ex_today_kw_def ex_cached1_def)

section \<open>Properties of \<open>_load_cached_articles\<close>\<close>

lemma load_file_outcome:
  "load_file sp co acc f =
     (case file_outcome sp co f of
        Skipped \<Rightarrow> acc
      | Corrupted \<Rightarrow> (fst acc, (snd acc)\<lparr>files_corrupted := files_corrupted (snd acc) + 1\<rparr>)
      | Loaded arts \<Rightarrow> (fst acc @ arts, (snd acc)\<lparr>files_loaded := files_loaded (snd acc) + 1\<rparr>))"
  by (simp add: load_file_def file_outcome_def split: option.splits sum.splits)

lemma foldl_load_file:
  "foldl (load_file sp co) acc fs =
     (fst acc @ concat (map (\<lambda>f. outcome_articles (file_outcome sp co f)) fs),
      \<lparr>files_loaded = files_loaded (snd acc) + length (filter (\<lambda>f. is_loaded (file_outcome sp co f)) fs),
       files_corrupted = files_corrupted (snd acc) + length (filter (\<lambda>f. file_outcome sp co f = Corrupted) fs)\<rparr>)"
proof (induction fs arbitrary: acc)
  case Nil
  show ?case by (cases acc) simp
next
  case (Cons f fs)
  show ?case
    by (cases "file_outcome sp co f") (simp_all add: Cons.IH load_file_outcome [of sp co acc f])
qed

lemma load_cached_articles_outcomes:
  "load_cached_articles sp (Some dir) co =
     (concat (map (\<lambda>f. outcome_articles (file_outcome sp co f)) (sorted_glob dir)),
      \<lparr>files_loaded = length (filter (\<lambda>f. is_loaded (file_outcome sp co f)) (sorted_glob dir)),
       files_corrupted = length (filter (\<lambda>f. file_outcome sp co f = Corrupted) (sorted_glob dir))\<rparr>)"
  by (simp add: load_cached_articles_def foldl_load_file)

lemma set_sorted_glob [simp]: "set (sorted_glob dir) = set dir"
  by (simp add: sorted_glob_def)

lemma loaded_articles_set:
  "set (fst (load_cached_articles sp (Some dir) co)) =
     (\<Union>f \<in> set dir. set (outcome_articles (file_outcome sp co f)))"
  by (simp add: load_cached_articles_outcomes)

lemma cutoff_arith:
  "midnight D < now - timedelta_days d \<longleftrightarrow>
     D + d < date_of now \<or> (D + d = date_of now \<and> now \<noteq> midnight (date_of now))"
  unfolding midnight_def timedelta_days_def date_of_def usec_per_day_def
  by (simp add: algebra_simps) arith


lemma sorted_glob_removeAll: "sorted_glob (removeAll x dir) = removeAll x (sorted_glob dir)"
  by (simp add: sorted_glob_def removeAll_filter_not_eq filter_sort)

lemma concat_map_removeAll: "g x = [] \<Longrightarrow> concat (map g (removeAll x xs)) = concat (map g xs)"
  by (induction xs) auto

lemma filter_removeAll_irrelevant: "\<not> P x \<Longrightarrow> filter P (removeAll x xs) = filter P xs"
  by (induction xs) auto

text \<open>
  C3 (as amended). Let a shard file be named for day \<open>D\<close> and hold a body that loads, and
  let the cutoff be \<open>now - timedelta(days=d)\<close>. The source compares the midnight of \<open>D\<close>
  with the cutoff, which carries the time of day of \<open>now\<close>. So:
  a shard dated less than \<open>d\<close> days before today is loaded at every time of day;
  a shard dated more than \<open>d\<close> days before today is never loaded;
  a shard dated exactly \<open>d\<close> days before today is loaded when the run happens at midnight
  sharp and contributes nothing (the result is that of the directory without the file)
  at every other time of day.
\<close>

theorem load_retention_boundary:
  assumes f: "(stem, body) \<in> set dir"
    and sp: "strptime stem = Some D"
    and ld: "load_day body = Inr day"
  shows "(date_of now - d < D \<or> (D = date_of now - d \<and> now = midnight (date_of now)) \<longrightarrow>
            set (articles day) \<subseteq> set (fst (load_cached_articles strptime (Some dir) (now - timedelta_days d))) \<and>
            1 \<le> files_loaded (snd (load_cached_articles strptime (Some dir) (now - timedelta_days d)))) \<and>
         (D < date_of now - d \<or> (D = date_of now - d \<and> now \<noteq> midnight (date_of now)) \<longrightarrow>
            load_cached_articles strptime (Some dir) (now - timedelta_days d) =
            load_cached_articles strptime (Some (removeAll (stem, body) dir)) (now - timedelta_days d))"
proof (intro conjI impI)
  let ?co = "now - timedelta_days d"
  assume "date_of now - d < D \<or> (D = date_of now - d \<and> now = midnight (date_of now))"
  then have "\<not> midnight D < ?co" unfolding cutoff_arith by auto
  with sp ld have out: "file_outcome strptime ?co (stem, body) = Loaded (articles day)"
    by (simp add: file_outcome_def)
  show "set (articles day) \<subseteq> set (fst (load_cached_articles strptime (Some dir) ?co))"
    unfolding loaded_articles_set using f out by force
  have "filter (\<lambda>f. is_loaded (file_outcome strptime ?co f)) (sorted_glob dir) \<noteq> []"
    unfolding filter_empty_conv using f out by force
  then show "1 \<le> files_loaded (snd (load_cached_articles strptime (Some dir) ?co))"
    by (simp add: load_cached_articles_outcomes Suc_le_eq)
next
  let ?co = "now - timedelta_days d"
  assume "D < date_of now - d \<or> (D = date_of now - d \<and> now \<noteq> midnight (date_of now))"
  then have "midnight D < ?co" unfolding cutoff_arith by auto
  with sp have out: "file_outcome strptime ?co (stem, body) = Skipped"
    by (simp add: file_outcome_def)
  show "load_cached_articles strptime (Some dir) ?co =
        load_cached_articles strptime (Some (removeAll (stem, body) dir)) ?co"
    by (simp add: load_cached_articles_outcomes sorted_glob_removeAll out
        concat_map_removeAll filter_removeAll_irrelevant)
qed

text \<open>
  The theorem at noon of 10 January 2024 with a lookback of three days: the shard of
  8 January is loaded.
\<close>

theorem load_retention_boundary_witness:
  "(''2024-01-08'', ex_shard ''a'') \<in> set [(''2024-01-08'', ex_shard ''a'')] \<and>
   ex_strptime ''2024-01-08'' = Some 738893 \<and>
   load_day (ex_shard ''a'') = Inr \<lparr>date = 0, articles = [ex_article ''a''], total_count = 1\<rparr> \<and>
   date_of ex_noon - 3 < 738893 \<and>
   set [ex_article ''a''] \<subseteq>
     set (fst (load_cached_articles ex_strptime (Some [(''2024-01-08'', ex_shard ''a'')])
            (ex_noon - timedelta_days 3)))"
proof -
  have h1: "(''2024-01-08'', ex_shard ''a'') \<in> set [(''2024-01-08'', ex_shard ''a'')]" by simp
  have h2: "ex_strptime ''2024-01-08'' = Some 738893" by (simp add: ex_strptime_def)
  have h3: "load_day (ex_shard ''a'') =
      Inr \<lparr>date = 0, articles = [ex_article ''a''], total_count = 1\<rparr>"
    by (simp add: ex_shard_def ex_article_def ProcessedArticle_valid_def)
  have h4: "date_of ex_noon - 3 < 738893"
    by (simp add: date_of_def ex_noon_def midnight_def usec_per_day_def)
  from load_retention_boundary [where stem = "''2024-01-08''" and body = "ex_shard ''a''"
      and dir = "[(''2024-01-08'', ex_shard ''a'')]" and strptime = ex_strptime and D = 738893
      and day = "\<lparr>date = 0, articles = [ex_article ''a''], total_count = 1\<rparr>"
      and now = ex_noon and d = 3] h1 h2 h3 h4
  have "set (articles \<lparr>date = 0, articles = [ex_article ''a''], total_count = 1\<rparr>) \<subseteq>
     set (fst (load_cached_articles ex_strptime (Some [(''2024-01-08'', ex_shard ''a'')])
            (ex_noon - timedelta_days 3)))"
    by blast
  with h1 h2 h3 h4 show ?thesis by simp
qed

text \<open>
  C3 as stated fails at any time of day but midnight. At noon of 10 January 2024 with a
  lookback of three days the cutoff is noon of 7 January; the shard named for 7 January,
  exactly three days before today, stands for the midnight of that day, which is before
  the cutoff, and is skipped: nothing is loaded.
\<close>

theorem load_skips_cutoff_day_at_noon:
  "date_of ex_noon = 738895 \<and>
   ex_strptime ''2024-01-07'' = Some (738895 - 3) \<and>
   load_day (ex_shard ''a'') = Inr \<lparr>date = 0, articles = [ex_article ''a''], total_count = 1\<rparr> \<and>
   load_cached_articles ex_strptime (Some [(''2024-01-07'', ex_shard ''a'')])
       (ex_noon - timedelta_days 3) =
     ([], \<lparr>files_loaded = 0, files_corrupted = 0\<rparr>)"
  by (simp add: load_cached_articles_def sorted_glob_def load_file_def ex_strptime_def
      ex_noon_def ex_shard_def ex_article_def ProcessedArticle_valid_def date_of_def
      midnight_def timedelta_days_def usec_per_day_def)




section \<open>Properties of \<open>run_step2\<close> and \<open>_save_articles_to_daily_cache\<close>\<close>










lemma set_update_subset: "set (AList.update k v al) \<subseteq> insert (k, v) (set al)"
  by (induction al) auto



lemma slug_dict_inv:
  "\<forall>(k, v) \<in> set d0. slug v = k \<and> v \<in> S \<Longrightarrow> set arts \<subseteq> S \<Longrightarrow>
   (\<forall>(k, v) \<in> set (foldl (\<lambda>d a. AList.update (slug a) a d) d0 arts). slug v = k \<and> v \<in> S) \<and>
   fst ` set (foldl (\<lambda>d a. AList.update (slug a) a d) d0 arts) = fst ` set d0 \<union> slug ` set arts"
proof (induction arts arbitrary: d0)
  case Nil
  then show ?case by simp
next
  case (Cons a arts)
  have "\<forall>(k, v) \<in> set (AList.update (slug a) a d0). slug v = k \<and> v \<in> S"
    using Cons.prems set_update_subset [of "slug a" a d0] by auto
  moreover have "set arts \<subseteq> S" using Cons.prems by simp
  ultimately show ?case
    using Cons.IH [of "AList.update (slug a) a d0"] by (auto simp: dom_update)
qed

lemma slug_dict_values:
  "set (map snd (slug_dict xs)) \<subseteq> set xs" "slug ` set (map snd (slug_dict xs)) = slug ` set xs"
proof -
  have inv: "(\<forall>(k, v) \<in> set (slug_dict xs). slug v = k \<and> v \<in> set xs) \<and>
             fst ` set (slug_dict xs) = slug ` set xs"
    using slug_dict_inv [of "[]" "set xs" xs] by (simp add: slug_dict_def)
  then show "set (map snd (slug_dict xs)) \<subseteq> set xs" by auto
  from inv have "\<And>p. p \<in> set (slug_dict xs) \<Longrightarrow> slug (snd p) = fst p" by auto
  then have "slug ` snd ` set (slug_dict xs) = fst ` set (slug_dict xs)"
    by (simp add: image_image)
  with inv show "slug ` set (map snd (slug_dict xs)) = slug ` set xs" by simp
qed





lemma save_unfold:
  "save_articles_to_daily_cache now arts stem dir =
     (True, AList.update stem
        (JsonDay (Some now) (written_articles dir stem arts)
           (int (length (written_articles dir stem arts)))) dir)"
  by (simp add: save_articles_to_daily_cache_def existing_articles_of_def written_articles_def Let_def)



lemma written_slugs:
  "slug ` set (written_articles dir stem arts) =
     slug ` set (existing_articles_of dir stem) \<union> slug ` set arts"
  using slug_dict_values(2) [of "existing_articles_of dir stem @ arts"]
  by (simp add: written_articles_def image_Un)







lemma update_fresh: "k \<notin> fst ` set al \<Longrightarrow> AList.update k v al = al @ [(k, v)]"
  by (induction al) auto

lemma foldl_update_distinct:
  "distinct (map slug arts) \<Longrightarrow> slug ` set arts \<inter> fst ` set d0 = {} \<Longrightarrow>
   foldl (\<lambda>d a. AList.update (slug a) a d) d0 arts = d0 @ map (\<lambda>a. (slug a, a)) arts"
proof (induction arts arbitrary: d0)
  case Nil
  then show ?case by simp
next
  case (Cons a arts)
  from Cons.prems have fresh: "slug a \<notin> fst ` set d0" by auto
  have step: "AList.update (slug a) a d0 = d0 @ [(slug a, a)]" by (rule update_fresh [OF fresh])
  have "slug ` set arts \<inter> fst ` set (d0 @ [(slug a, a)]) = {}"
    using Cons.prems by auto
  with Cons.prems Cons.IH [of "d0 @ [(slug a, a)]"] show ?case
    by (simp add: step)
qed

lemma slug_dict_distinct: "distinct (map slug arts) \<Longrightarrow> map snd (slug_dict arts) = arts"
  using foldl_update_distinct [of arts "[]"] by (simp add: slug_dict_def comp_def)

text \<open>
  C10. Today's shard file exists. When its body does not load (it is not JSON, or it
  fails validation), \<open>_save_articles_to_daily_cache\<close> still returns \<open>True\<close> and rewrites
  the file with the new articles alone: one entry per slug of the new articles, and the
  new articles themselves when their slugs are distinct; whatever entries the old body
  held are gone. When the body loads, every slug of the existing day is still in the
  rewritten file, so existing entries are lost only in the first case.
\<close>

theorem save_overwrites_unreadable_shard:
  assumes ex: "map_of dir stem = Some body"
  shows "fst (save_articles_to_daily_cache now arts stem dir) = True \<and>
         ((\<exists>e. load_day body = Inl e) \<longrightarrow>
            map_of (snd (save_articles_to_daily_cache now arts stem dir)) stem =
              Some (JsonDay (Some now) (map snd (slug_dict arts)) (int (length (slug_dict arts)))) \<and>
            set (map snd (slug_dict arts)) \<subseteq> set arts \<and>
            slug ` set (map snd (slug_dict arts)) = slug ` set arts \<and>
            (distinct (map slug arts) \<longrightarrow> map snd (slug_dict arts) = arts)) \<and>
         (\<forall>day. load_day body = Inr day \<longrightarrow>
            (\<exists>written.
               map_of (snd (save_articles_to_daily_cache now arts stem dir)) stem =
                 Some (JsonDay (Some now) written (int (length written))) \<and>
               slug ` set (articles day) \<subseteq> slug ` set written))"
proof (intro conjI impI allI)
  show "fst (save_articles_to_daily_cache now arts stem dir) = True"
    by (simp add: save_unfold)
next
  assume "\<exists>e. load_day body = Inl e"
  then have "existing_articles_of dir stem = []"
    using ex by (auto simp: existing_articles_of_def)
  then show "map_of (snd (save_articles_to_daily_cache now arts stem dir)) stem =
      Some (JsonDay (Some now) (map snd (slug_dict arts)) (int (length (slug_dict arts))))"
    by (simp add: save_unfold update_conv' written_articles_def)
next
  show "set (map snd (slug_dict arts)) \<subseteq> set arts" by (rule slug_dict_values(1))
next
  show "slug ` set (map snd (slug_dict arts)) = slug ` set arts" by (rule slug_dict_values(2))
next
  assume "distinct (map slug arts)"
  then show "map snd (slug_dict arts) = arts" by (rule slug_dict_distinct)
next
  fix day assume "load_day body = Inr day"
  then have e: "existing_articles_of dir stem = articles day"
    using ex by (simp add: existing_articles_of_def)
  let ?w = "written_articles dir stem arts"
  have "map_of (snd (save_articles_to_daily_cache now arts stem dir)) stem =
      Some (JsonDay (Some now) ?w (int (length ?w)))"
    by (simp add: save_unfold update_conv')
  moreover have "slug ` set (articles day) \<subseteq> slug ` set ?w"
    using written_slugs [of dir stem arts] e by auto
  ultimately show "\<exists>written.
      map_of (snd (save_articles_to_daily_cache now arts stem dir)) stem =
        Some (JsonDay (Some now) written (int (length written))) \<and>
      slug ` set (articles day) \<subseteq> slug ` set written"
    by blast
qed

text \<open>
  The theorem for a file of today that holds two articles, one of them with a
  \<open>feed_priority\<close> of 11: the body fails validation, and after an append of one new
  article the file holds that article alone.
\<close>

theorem save_overwrites_unreadable_shard_witness:
  "map_of [(''2024-01-10'', JsonDay (Some 0) [ex_article ''a'', (ex_article ''b'')\<lparr>feed_priority := 11\<rparr>] 2)]
      ''2024-01-10'' =
     Some (JsonDay (Some 0) [ex_article ''a'', (ex_article ''b'')\<lparr>feed_priority := 11\<rparr>] 2) \<and>
   load_day (JsonDay (Some 0) [ex_article ''a'', (ex_article ''b'')\<lparr>feed_priority := 11\<rparr>] 2) =
     Inl PydanticValidationError \<and>
   distinct (map slug [ex_article ''n'']) \<and>
   fst (save_articles_to_daily_cache ex_noon [ex_article ''n''] ''2024-01-10''
         [(''2024-01-10'', JsonDay (Some 0) [ex_article ''a'', (ex_article ''b'')\<lparr>feed_priority := 11\<rparr>] 2)]) =
     True \<and>
   map_of (snd (save_articles_to_daily_cache ex_noon [ex_article ''n''] ''2024-01-10''
         [(''2024-01-10'', JsonDay (Some 0) [ex_article ''a'', (ex_article ''b'')\<lparr>feed_priority := 11\<rparr>] 2)]))
      ''2024-01-10'' =
     Some (JsonDay (Some ex_noon) [ex_article ''n''] 1)"
proof -
  let ?body = "JsonDay (Some 0) [ex_article ''a'', (ex_article ''b'')\<lparr>feed_priority := 11\<rparr>] 2"
  let ?dir = "[(''2024-01-10'', ?body)]"
  have h1: "map_of ?dir ''2024-01-10'' = Some ?body" by simp
  have h2: "load_day ?body = Inl PydanticValidationError"
    by (simp add: ProcessedArticle_valid_def ex_article_def)
  have h3: "distinct (map slug [ex_article ''n''])" by simp
  note t = save_overwrites_unreadable_shard [where dir = ?dir and stem = "''2024-01-10''"
      and body = ?body and now = ex_noon and arts = "[ex_article ''n'']", OF h1]
  from t h2 h3 have "fst (save_articles_to_daily_cache ex_noon [ex_article ''n''] ''2024-01-10'' ?dir) = True"
    by blast
  moreover from t h2 h3 have "map snd (slug_dict [ex_article ''n'']) = [ex_article ''n'']"
    by blast
  moreover from t h2 have "map_of (snd (save_articles_to_daily_cache ex_noon [ex_article ''n''] ''2024-01-10'' ?dir)) ''2024-01-10'' =
      Some (JsonDay (Some ex_noon) (map snd (slug_dict [ex_article ''n''])) (int (length (slug_dict [ex_article ''n'']))))"
    by blast
  ultimately show ?thesis using h1 h2 h3
    by (simp add: slug_dict_def)
qed

section \<open>Properties of \<open>run_step0\<close> and \<open>CacheManager.cleanup\<close>\<close>

lemma release_no_lock: "lock_mtime (release_lock_file st) = None"
  by (simp add: release_lock_file_def split: option.splits)

lemma release_files: "files (release_lock_file st) = files st"
  by (simp add: release_lock_file_def split: option.splits)

lemma acquire_without_lock: "lock_mtime st = None \<Longrightarrow> fst (acquire_lock_file t st) = True"
  by (simp add: acquire_lock_file_def)

lemma acquire_files: "files (snd (acquire_lock_file t st)) = files st"
  by (simp add: acquire_lock_file_def Let_def split: option.splits)

text \<open>
  C9. The \<open>finally\<close> clause of \<open>run_step0\<close> releases the lock on every return path. After
  any call the lock file is absent and a following \<open>acquire_lock_file\<close> succeeds. That
  includes the call that returns \<open>success = False\<close> because a lock not older than 3600
  seconds made the acquisition fail: the lock it did not acquire is deleted too, and the
  files of the cache are left as they were.
\<close>

theorem run_step0_always_removes_lock:
  "lock_mtime (snd (run_step0 env config check_gemini st)) = None \<and>
   fst (acquire_lock_file t (snd (run_step0 env config check_gemini st))) = True \<and>
   (\<forall>mtime. lock_mtime st = Some mtime \<and> clock env - mtime \<le> 3600 \<longrightarrow>
      \<not> Step0Result.success (fst (run_step0 env config check_gemini st)) \<and>
      files (snd (run_step0 env config check_gemini st)) = files st)"
proof -
  have a: "lock_mtime (snd (run_step0 env config check_gemini st)) = None"
    by (simp add: run_step0_def Let_def release_no_lock)
  have b: "fst (acquire_lock_file t (snd (run_step0 env config check_gemini st))) = True"
    by (rule acquire_without_lock [OF a])
  have c: "\<not> Step0Result.success (fst (run_step0 env config check_gemini st)) \<and>
      files (snd (run_step0 env config check_gemini st)) = files st"
    if "lock_mtime st = Some mtime" "clock env - mtime \<le> 3600" for mtime
    using that by (simp add: run_step0_def acquire_lock_file_def Let_def release_files)
  from a b c show ?thesis by blast
qed

text \<open>The theorem for a lock that is 100 seconds old when the run starts.\<close>

theorem run_step0_always_removes_lock_witness:
  "lock_mtime ex_locked = Some 900 \<and> clock ex_env - 900 \<le> 3600 \<and>
   fst (acquire_lock_file (clock ex_env) ex_locked) = False \<and>
   \<not> Step0Result.success (fst (run_step0 ex_env ex_config False ex_locked)) \<and>
   lock_mtime (snd (run_step0 ex_env ex_config False ex_locked)) = None \<and>
   fst (acquire_lock_file 1001 (snd (run_step0 ex_env ex_config False ex_locked))) = True"
proof -
  have h1: "lock_mtime ex_locked = Some 900" by (simp add: ex_locked_def)
  have h2: "clock ex_env - 900 \<le> 3600" by (simp add: ex_env_def)
  have h3: "fst (acquire_lock_file (clock ex_env) ex_locked) = False"
    by (simp add: acquire_lock_file_def ex_locked_def ex_env_def)
  from run_step0_always_removes_lock [where env = ex_env and config = ex_config
      and check_gemini = False and st = ex_locked and t = 1001] h1 h2 h3
  show ?thesis by blast
qed


lemma removed_key_iff:
  "removed_key now policy fs key \<longleftrightarrow>
     (\<exists>d f. (key, d) \<in> set policy \<and> map_of fs key = Some f \<and> expired now f d)"
  by (force simp: removed_key_def list_ex_iff split: option.splits)

lemma stale_expired:
  "(exists_key fs key \<and> \<not> is_fresh now fs key d) \<longleftrightarrow> (\<exists>f. map_of fs key = Some f \<and> expired now f d)"
  by (auto simp: exists_key_def is_fresh_def get_age_def expired_def split: option.splits)

lemma map_of_delete_key: "map_of (delete_key k fs) k' = (if k' = k then None else map_of fs k')"
  by (induction fs) (auto simp: delete_key_def)

lemma map_of_filter_key:
  "map_of (filter (\<lambda>f. Q (fst f)) fs) k = (if Q k then map_of fs k else None)"
  by (induction fs) auto

lemma cleanup_step_unfold:
  "cleanup_step now (fs, n) (key, d) =
     (if \<exists>f. map_of fs key = Some f \<and> expired now f d then (delete_key key fs, n + 1) else (fs, n))"
  using stale_expired [of fs key now d] by (simp add: cleanup_step_def)

lemma foldl_cleanup:
  "fst (foldl (cleanup_step now) (fs, n) policy) =
     filter (\<lambda>f. \<not> removed_key now policy fs (fst f)) fs"
proof (induction policy arbitrary: fs n)
  case Nil
  show ?case by (simp add: removed_key_iff)
next
  case (Cons item policy)
  obtain key d where item: "item = (key, d)" by (cases item)
  show ?case
  proof (cases "\<exists>f. map_of fs key = Some f \<and> expired now f d")
    case True
    have "fst (foldl (cleanup_step now) (fs, n) (item # policy)) =
        filter (\<lambda>f. \<not> removed_key now policy (delete_key key fs) (fst f)) (delete_key key fs)"
      using True by (simp add: item cleanup_step_unfold Cons.IH)
    also have "\<dots> = filter (\<lambda>f. fst f \<noteq> key \<and> \<not> removed_key now policy (delete_key key fs) (fst f)) fs"
      by (simp add: delete_key_def)
    also have "\<dots> = filter (\<lambda>f. \<not> removed_key now (item # policy) fs (fst f)) fs"
    proof (intro filter_cong refl)
      fix x assume "x \<in> set fs"
      show "(fst x \<noteq> key \<and> \<not> removed_key now policy (delete_key key fs) (fst x)) =
            (\<not> removed_key now (item # policy) fs (fst x))"
        using True by (auto simp: removed_key_iff item map_of_delete_key)
    qed
    finally show ?thesis .
  next
    case False
    have step: "cleanup_step now (fs, n) (key, d) = (fs, n)"
      by (simp only: cleanup_step_unfold if_not_P [OF False])
    have "fst (foldl (cleanup_step now) (fs, n) (item # policy)) =
        filter (\<lambda>f. \<not> removed_key now policy fs (fst f)) fs"
      by (simp add: item step Cons.IH)
    also have "\<dots> = filter (\<lambda>f. \<not> removed_key now (item # policy) fs (fst f)) fs"
      using False by (auto simp: removed_key_iff item intro!: filter_cong)
    finally show ?thesis .
  qed
qed

lemma cleanup_files:
  "fst (cleanup now policy fs) = filter (\<lambda>f. \<not> removed_key now policy fs (fst f)) fs"
  by (simp add: cleanup_def foldl_cleanup)

lemma cleanup_map_of:
  "map_of (fst (cleanup now policy fs)) key =
     (if removed_key now policy fs key then None else map_of fs key)"
  using map_of_filter_key [of "\<lambda>k. \<not> removed_key now policy fs k" fs key]
  by (simp add: cleanup_files)

lemma list_all_keys_removed:
  assumes "\<And>k. R k \<Longrightarrow> CHR ''/'' \<notin> set k"
  shows "int (length (list_all_keys fs)) - int (length (list_all_keys (filter (\<lambda>f. \<not> R (fst f)) fs))) =
         int (length fs) - int (length (filter (\<lambda>f. \<not> R (fst f)) fs))"
  using assms by (induction fs) (auto simp: list_all_keys_def)

lemma retention_policy_keys:
  "retention_policy config = Inr policy \<Longrightarrow> (key, d) \<in> set policy \<Longrightarrow> CHR ''/'' \<notin> set key"
  by (auto simp: retention_policy_def split: option.splits)

lemma age_exceeds_expired:
  assumes c: "cached_at f = Some t" and a: "now - t > timedelta_days d"
  shows "expired now f d"
proof -
  have "(now - t) mod 86400000000 < 86400000000" by simp
  moreover have "now - t = (now - t) div 86400000000 * 86400000000 + (now - t) mod 86400000000"
    by simp
  moreover have "d * 86400000000 < now - t"
    using a by (simp add: timedelta_days_def usec_per_day_def)
  ultimately have "d \<le> (now - t) div 86400000000" by linarith
  with c show ?thesis by (simp add: expired_def usec_per_day_def)
qed

lemma run_step0_cleanup_unfold:
  assumes acq: "fst (acquire_lock_file (clock env) st)"
    and mk: "\<not> mkdir_raises env"
    and cl: "cleanup_on_start config"
    and pol: "retention_policy config = Inr policy"
  shows "files (snd (run_step0 env config cg st)) = fst (cleanup (now_dt env) policy (files st))"
    and "cache_cleaned (fst (run_step0 env config cg st)) =
           int (length (list_all_keys (files st))) -
           int (length (list_all_keys (fst (cleanup (now_dt env) policy (files st)))))"
  using assms
  by (simp_all add: run_step0_def step0_body_def Let_def release_files acquire_files)

text \<open>
  C4 (as amended). Cleanup works on the files \<open>{key}.json\<close> of the cache root, one for
  each key of the retention policy; it never looks into a subdirectory. In a run of
  \<open>run_step0\<close> that holds the lock and reaches the cleanup:
  the file of a key of the policy is removed exactly when it exists and its age cannot
  be read or its age in whole days is at least the retention of the key (\<open>removed_key\<close>),
  so in particular when its age exceeds the retention;
  every file whose key is not a key of the policy is kept, date shards in
  subdirectories among them;
  and \<open>cache_cleaned\<close> is the number of files removed.
\<close>

theorem run_step0_cleanup_by_key:
  assumes acq: "fst (acquire_lock_file (clock env) st)"
    and mk: "\<not> mkdir_raises env"
    and cl: "cleanup_on_start config"
    and pol: "retention_policy config = Inr policy"
  shows "(\<forall>key. map_of (files (snd (run_step0 env config cg st))) key =
            (if removed_key (now_dt env) policy (files st) key then None
             else map_of (files st) key)) \<and>
         (\<forall>key d f t. (key, d) \<in> set policy \<and> map_of (files st) key = Some f \<and>
              cached_at f = Some t \<and> now_dt env - t > timedelta_days d \<longrightarrow>
            map_of (files (snd (run_step0 env config cg st))) key = None) \<and>
         (\<forall>key. key \<notin> fst ` set policy \<longrightarrow>
            map_of (files (snd (run_step0 env config cg st))) key = map_of (files st) key) \<and>
         cache_cleaned (fst (run_step0 env config cg st)) =
           int (length (files st)) - int (length (files (snd (run_step0 env config cg st))))"
proof -
  let ?now = "now_dt env"
  let ?after = "files (snd (run_step0 env config cg st))"
  have after: "?after = fst (cleanup ?now policy (files st))"
    by (rule run_step0_cleanup_unfold(1) [OF acq mk cl pol])
  have m: "map_of ?after key =
      (if removed_key ?now policy (files st) key then None else map_of (files st) key)" for key
    unfolding after by (rule cleanup_map_of)
  have e: "map_of ?after key = None"
    if "(key, d) \<in> set policy" "map_of (files st) key = Some f" "cached_at f = Some t"
       "?now - t > timedelta_days d" for key d f t
  proof -
    from that(3,4) have "expired ?now f d" by (rule age_exceeds_expired)
    with that(1,2) have "removed_key ?now policy (files st) key"
      unfolding removed_key_iff by blast
    then show ?thesis by (simp add: m)
  qed
  have k: "map_of ?after key = map_of (files st) key" if "key \<notin> fst ` set policy" for key
  proof -
    from that have "\<not> removed_key ?now policy (files st) key"
      unfolding removed_key_iff by force
    then show ?thesis by (simp add: m)
  qed
  have top: "CHR ''/'' \<notin> set key" if "removed_key ?now policy (files st) key" for key
    using that retention_policy_keys [OF pol] unfolding removed_key_iff by blast
  have c: "cache_cleaned (fst (run_step0 env config cg st)) =
      int (length (files st)) - int (length ?after)"
    unfolding after run_step0_cleanup_unfold(2) [OF acq mk cl pol] cleanup_files
    by (rule list_all_keys_removed) (rule top)
  from m e k c show ?thesis by blast
qed

text \<open>
  The theorem for a cache root with a file \<open>news.json\<close> that is 40 days old, under a
  retention of three days.
\<close>

theorem run_step0_cleanup_by_key_witness:
  "fst (acquire_lock_file (clock ex_env) ex_cache) \<and> \<not> mkdir_raises ex_env \<and>
   cleanup_on_start ex_config \<and>
   retention_policy ex_config =
     Inr [(''articles'', 10), (''news'', 3), (''processed_articles'', 10),
          (''clustered_articles'', 10), (''selected_articles'', 3), (''enhanced_news'', 3)] \<and>
   map_of (files ex_cache) ''news'' = Some (CacheFile (Some (midnight 738855))) \<and>
   now_dt ex_env - midnight 738855 > timedelta_days 3 \<and>
   map_of (files (snd (run_step0 ex_env ex_config False ex_cache))) ''news'' = None \<and>
   cache_cleaned (fst (run_step0 ex_env ex_config False ex_cache)) =
     int (length (files ex_cache)) - int (length (files (snd (run_step0 ex_env ex_config False ex_cache))))"
proof -
  let ?policy = "[(''articles'', 10), (''news'', 3), (''processed_articles'', 10),
          (''clustered_articles'', 10), (''selected_articles'', 3), (''enhanced_news'', 3)]"
  have h1: "fst (acquire_lock_file (clock ex_env) ex_cache)"
    by (simp add: acquire_lock_file_def ex_cache_def)
  have h2: "\<not> mkdir_raises ex_env" by (simp add: ex_env_def)
  have h3: "cleanup_on_start ex_config" by (simp add: ex_config_def)
  have h4: "retention_policy ex_config = Inr ?policy"
    by (simp add: retention_policy_def ex_config_def)
  have h5: "map_of (files ex_cache) ''news'' = Some (CacheFile (Some (midnight 738855)))"
    by (simp add: ex_cache_def)
  have h6: "now_dt ex_env - midnight 738855 > timedelta_days 3"
    by (simp add: ex_env_def midnight_def timedelta_days_def usec_per_day_def)
  have h7: "(''news'', 3) \<in> set ?policy" by simp
  have h8: "cached_at (CacheFile (Some (midnight 738855))) = Some (midnight 738855)" by simp
  note t = run_step0_cleanup_by_key [where env = ex_env and st = ex_cache and config = ex_config
      and policy = ?policy and cg = False, OF h1 h2 h3 h4]
  from t h5 h6 h7 h8 have "map_of (files (snd (run_step0 ex_env ex_config False ex_cache))) ''news'' = None"
    by blast
  moreover from t have "cache_cleaned (fst (run_step0 ex_env ex_config False ex_cache)) =
     int (length (files ex_cache)) - int (length (files (snd (run_step0 ex_env ex_config False ex_cache))))"
    by blast
  ultimately show ?thesis using h1 h2 h3 h4 h5 h6 by blast
qed

text \<open>
  C4 as stated fails for date shards. The shards \<open>news/news_2023-12-01.json\<close> and
  \<open>articles/2023-12-01.json\<close> are 40 days old on 10 January 2024 and the retention is 3
  and 10 days; the run removes \<open>news.json\<close> and leaves both shards in place.
\<close>

theorem cleanup_keeps_old_date_shards:
  "retention_policy ex_config =
     Inr [(''articles'', 10), (''news'', 3), (''processed_articles'', 10),
          (''clustered_articles'', 10), (''selected_articles'', 3), (''enhanced_news'', 3)] \<and>
   (now_dt ex_env - midnight 738855) div usec_per_day = 40 \<and>
   run_step0 ex_env ex_config False ex_cache =
     (\<lparr>success = True, cache_cleaned = 1, cache_backed_up = True, errors = []\<rparr>,
      \<lparr>lock_mtime = None,
       files = [(''articles'', CacheFile (Some (midnight 738890))),
                (''news/news_2023-12-01'', CacheFile (Some (midnight 738855))),
                (''articles/2023-12-01'', CacheFile None)]\<rparr>)"
  by (simp add: run_step0_def step0_body_def acquire_lock_file_def release_lock_file_def
      retention_policy_def cleanup_def cleanup_step_def exists_key_def is_fresh_def get_age_def
      delete_key_def list_all_keys_def ex_env_def ex_config_def ex_cache_def midnight_def
      usec_per_day_def Let_def)

end
